theory Spec2Isabelle
  imports Main "HOL-Library.Sublist" "HOL-Library.List_Lexorder" "HOL-Library.Char_ord"
begin

section \<open>Data model\<close>

text \<open>
  The task manager keeps three pieces of durable state: the tasks collection, the users
  collection and the upload directory on disk. Task and document identifiers are the
  ObjectIds the persistence layer hands out; they are modelled as natural numbers drawn
  from a counter. User identifiers reach the handlers as text (\<open>req.user.id\<close>,
  \<open>req.body.assignedTo\<close>) and stay strings. Dates are milliseconds since the epoch.
  A task id in the route reaches the store as given; a malformed one finds no task and
  the controller answers it like an unknown one. User ids are compared as texts, in the form the server
  issues them.
\<close>

text \<open>A file as the multipart parser hands it over (\<open>req.files[i]\<close>).\<close>

record upload =
  originalname :: string
  file_path :: string
  file_mimetype :: string

text \<open>An entry of \<open>attachedDocuments\<close> (models/Task.js).\<close>

record document =
  doc_id :: nat
  filename :: string
  path :: string
  mimetype :: string

record task =
  task_id :: nat
  title :: string
  description :: string
  status :: string
  priority :: string
  dueDate :: int
  assignedTo :: string
  createdBy :: string
  attachedDocuments :: "document list"
  createdAt :: int
  updatedAt :: int

record state =
  tasks :: "task list"
  users :: "string set"
  disk :: "string set"
  next_oid :: nat

text \<open>
  A date field of a request: absent, present with empty text (falsy in JavaScript), or
  present and denoting a date.
\<close>

datatype date_param = No_date | Blank_date | Date int

text \<open>
  One element of \<open>existingAttachedDocuments\<close> after \<open>JSON.parse\<close>: text that does not
  parse, or an object whose \<open>_id\<close> is the text of a document id (or is missing or not an
  id).
\<close>

datatype retain_item = Bad_json | Item "nat option"

text \<open>
  The request as the handlers read it: the outcome of the validation middleware, the
  authenticated user, the route parameter, the uploaded files and the body fields. An
  absent body field is \<open>None\<close>; \<open>Some []\<close> is a field sent with empty text. The retain
  field \<open>existingAttachedDocuments\<close> is \<open>None\<close> when it is absent or empty, and otherwise the
  list of its elements.
\<close>

record request =
  errors_empty :: bool
  user_id :: string
  user_role :: string
  param_id :: nat
  files :: "upload list"
  b_title :: "string option"
  b_description :: "string option"
  b_status :: "string option"
  b_priority :: "string option"
  b_dueDate :: date_param
  b_assignedTo :: "string option"
  b_createdBy :: "string option"
  b_existing :: "retain_item list option"

datatype operation = View | Update | Delete | Download

datatype response =
    Created task
  | Ok_task task
  | Ok_tasks "task list"
  | Ok_deleted
  | Ok_download string string
  | ValidationFailed
  | TooManyDocuments
  | AssignedUserNotFound
  | TaskNotFound
  | Forbidden operation
  | InvalidFilePath
  | DocumentNotFound
  | FileMissingOnDisk
  | ServerError
  | CastError
  | Unhandled

text \<open>
  The HTTP status each response is sent with; \<open>Unhandled\<close> sends none. \<open>CastError\<close> is the
  error the service lets through when an id does not cast; the error handler answers it
  with 404.
\<close>

fun status_code :: "response \<Rightarrow> nat option" where
  "status_code (Created _) = Some 201"
| "status_code (Ok_task _) = Some 200"
| "status_code (Ok_tasks _) = Some 200"
| "status_code Ok_deleted = Some 200"
| "status_code (Ok_download _ _) = Some 200"
| "status_code ValidationFailed = Some 400"
| "status_code TooManyDocuments = Some 400"
| "status_code AssignedUserNotFound = Some 400"
| "status_code TaskNotFound = Some 404"
| "status_code (Forbidden _) = Some 403"
| "status_code InvalidFilePath = Some 400"
| "status_code DocumentNotFound = Some 404"
| "status_code FileMissingOnDisk = Some 404"
| "status_code ServerError = Some 500"
| "status_code CastError = Some 404"
| "status_code Unhandled = None"

section \<open>Constants (config/constants.js)\<close>

definition ADMIN :: string where
  "ADMIN = ''admin''"

definition MAX_DOCUMENTS_PER_TASK :: nat where
  "MAX_DOCUMENTS_PER_TASK = 3"

section \<open>JavaScript idioms\<close>

text \<open>\<open>if (v)\<close> on a body or query field: absent and empty text are falsy.\<close>

fun truthy :: "string option \<Rightarrow> bool" where
  "truthy None = False"
| "truthy (Some s) = (s \<noteq> [])"

text \<open>\<open>v || d\<close>.\<close>

fun or_else :: "string option \<Rightarrow> string \<Rightarrow> string" where
  "or_else None d = d"
| "or_else (Some s) d = (if s = [] then d else s)"

fun date_or_else :: "date_param \<Rightarrow> int \<Rightarrow> int" where
  "date_or_else (Date x) d = x"
| "date_or_else _ d = d"

section \<open>File storage\<close>

text \<open>
  \<open>fs.unlinkSync\<close> removes a file and throws when it is not there. \<open>unlinkEach\<close> is
  \<open>paths.forEach(p => fs.unlinkSync(p))\<close>: it returns the disk as the loop left it and
  whether the loop ran to the end.
\<close>

fun unlinkEach :: "string list \<Rightarrow> string set \<Rightarrow> string set \<times> bool" where
  "unlinkEach [] d = (d, True)"
| "unlinkEach (p # ps) d = (if p \<in> d then unlinkEach ps (d - {p}) else (d, False))"

text \<open>
  \<open>docs.forEach(doc => { if (fs.existsSync(doc.path)) fs.unlinkSync(doc.path) })\<close>: a file
  already gone is skipped.
\<close>

fun removeStored :: "document list \<Rightarrow> string set \<Rightarrow> string set" where
  "removeStored [] d = d"
| "removeStored (x # xs) d = removeStored xs (if path x \<in> d then d - {path x} else d)"

text \<open>
  The clean-up every rejecting branch runs before it answers:
  \<open>if (req.files) req.files.forEach(file => fs.unlinkSync(file.path))\<close>, followed by the
  response. When an unlink throws outside the \<open>try\<close> block nothing answers the request;
  inside it the \<open>catch\<close> block repeats the same loop, which throws again at a file that is
  no longer there, so the outcome is the same.
\<close>

definition discard_uploads :: "request \<Rightarrow> response \<Rightarrow> state \<Rightarrow> response \<times> state" where
  "discard_uploads req r s =
     (case unlinkEach (map file_path (files req)) (disk s) of
        (d, ok) \<Rightarrow> (if ok then r else Unhandled, s\<lparr>disk := d\<rparr>))"

section \<open>The tasks collection\<close>

text \<open>\<open>Task.findById(id)\<close>.\<close>

definition findById :: "nat \<Rightarrow> state \<Rightarrow> task option" where
  "findById tid s = find (\<lambda>t. task_id t = tid) (tasks s)"

text \<open>
  \<open>User.findById(v)\<close>. The id is cast to an ObjectId first and the cast throws for a text
  that is not one; \<open>oid\<close> says which texts the driver casts, and the empty text is never
  one. An absent id finds nobody.
\<close>

datatype lookup = Cast_fails | No_user | Found_user

definition User_findById :: "(string \<Rightarrow> bool) \<Rightarrow> string option \<Rightarrow> state \<Rightarrow> lookup" where
  "User_findById oid v s =
     (case v of
        None \<Rightarrow> No_user
      | Some a \<Rightarrow>
          if a = [] \<or> \<not> oid a then Cast_fails
          else if a \<in> users s then Found_user
          else No_user)"

text \<open>\<open>task.save()\<close> on a loaded task: the stored record with that id is replaced.\<close>

fun replace_task :: "task \<Rightarrow> task list \<Rightarrow> task list" where
  "replace_task t' [] = []"
| "replace_task t' (x # xs) =
     (if task_id x = task_id t' then t' # xs else x # replace_task t' xs)"

text \<open>\<open>Task.deleteOne({ _id: id })\<close>.\<close>

fun deleteOne :: "nat \<Rightarrow> task list \<Rightarrow> task list" where
  "deleteOne tid [] = []"
| "deleteOne tid (x # xs) = (if task_id x = tid then xs else x # deleteOne tid xs)"

text \<open>
  The attachment entries built from the uploaded files; each entry gets the next free
  ObjectId when it enters the document array.
\<close>

fun mk_docs :: "nat \<Rightarrow> upload list \<Rightarrow> document list" where
  "mk_docs n [] = []"
| "mk_docs n (f # fs) =
     \<lparr>doc_id = n, filename = originalname f, path = file_path f, mimetype = file_mimetype f\<rparr>
       # mk_docs (Suc n) fs"

section \<open>controllers/taskController.js\<close>

subsection \<open>createTask\<close>

text \<open>
  \<open>saves\<close> stands for the outcome of \<open>save()\<close>: the schema validators and the store
  accept the record or throw. \<open>populates\<close> stands for the outcome of the chained
  \<open>task.populate(...).populate(...)\<close> after the save: it returns, or it throws where
  \<open>populate\<close> on a document returns a promise, and then the \<open>catch\<close> block runs with the
  record already stored. \<open>now\<close> is \<open>Date.now()\<close>. Of the body only the six destructured
  fields are read; \<open>createdBy\<close> is taken from the token. A required field that is absent
  is left empty (the epoch, for the date) in the record handed to \<open>save()\<close>, which \<open>saves\<close>
  then judges.
\<close>

definition new_task :: "int \<Rightarrow> request \<Rightarrow> state \<Rightarrow> task" where
  "new_task now req s =
     \<lparr>task_id = next_oid s,
      title = (case b_title req of None \<Rightarrow> [] | Some x \<Rightarrow> x),
      description = (case b_description req of None \<Rightarrow> [] | Some x \<Rightarrow> x),
      status = (case b_status req of None \<Rightarrow> ''To Do'' | Some x \<Rightarrow> x),
      priority = (case b_priority req of None \<Rightarrow> ''Low'' | Some x \<Rightarrow> x),
      dueDate = date_or_else (b_dueDate req) 0,
      assignedTo = (case b_assignedTo req of None \<Rightarrow> [] | Some x \<Rightarrow> x),
      createdBy = user_id req,
      attachedDocuments = mk_docs (Suc (next_oid s)) (files req),
      createdAt = now,
      updatedAt = now\<rparr>"

definition createTask ::
  "(string \<Rightarrow> bool) \<Rightarrow> bool \<Rightarrow> (task \<Rightarrow> bool) \<Rightarrow> int \<Rightarrow> request \<Rightarrow> state
     \<Rightarrow> response \<times> state" where
  "createTask oid populates saves now req s =
     (if \<not> errors_empty req then discard_uploads req ValidationFailed s
      else if length (files req) > MAX_DOCUMENTS_PER_TASK
        then discard_uploads req TooManyDocuments s
      else case User_findById oid (b_assignedTo req) s of
        Cast_fails \<Rightarrow> discard_uploads req ServerError s
      | No_user \<Rightarrow> discard_uploads req AssignedUserNotFound s
      | Found_user \<Rightarrow>
          if saves (new_task now req s)
            then let s1 = s\<lparr>tasks := tasks s @ [new_task now req s],
                            next_oid := Suc (next_oid s) + length (files req)\<rparr>
                 in if populates then (Created (new_task now req s), s1)
                    else discard_uploads req ServerError s1
          else discard_uploads req ServerError s)"

subsection \<open>updateTask\<close>

text \<open>
  \<open>parsedExistingDocs.some(parsedDoc => parsedDoc._id === doc._id.toString())\<close>.
\<close>

definition is_retained :: "retain_item list \<Rightarrow> document \<Rightarrow> bool" where
  "is_retained items d = (Item (Some (doc_id d)) \<in> set items)"

text \<open>
  The document handling block: which stored files are deleted and which entries are kept.
  With the field absent (or empty) every current document is removed.
\<close>

definition docsToRetain :: "retain_item list option \<Rightarrow> document list \<Rightarrow> document list" where
  "docsToRetain ex cur = (case ex of None \<Rightarrow> [] | Some items \<Rightarrow> filter (is_retained items) cur)"

definition documentsToRemove :: "retain_item list option \<Rightarrow> document list \<Rightarrow> document list" where
  "documentsToRemove ex cur =
     (case ex of None \<Rightarrow> cur | Some items \<Rightarrow> filter (\<lambda>d. \<not> is_retained items d) cur)"

definition updated_task :: "int \<Rightarrow> request \<Rightarrow> state \<Rightarrow> task \<Rightarrow> task" where
  "updated_task now req s t =
     t\<lparr>title := or_else (b_title req) (title t),
       description := or_else (b_description req) (description t),
       status := or_else (b_status req) (status t),
       priority := or_else (b_priority req) (priority t),
       dueDate := date_or_else (b_dueDate req) (dueDate t),
       assignedTo := or_else (b_assignedTo req) (assignedTo t),
       attachedDocuments :=
         docsToRetain (b_existing req) (attachedDocuments t) @ mk_docs (next_oid s) (files req),
       updatedAt := now\<rparr>"

text \<open>
  The assignee is looked up only when the field is truthy. A cast failure there reaches
  the \<open>catch\<close> block as an error of kind \<open>ObjectId\<close>, which it answers with 404 and
  \<open>Task not found.\<close>
\<close>

definition updateTask ::
  "(string \<Rightarrow> bool) \<Rightarrow> bool \<Rightarrow> (task \<Rightarrow> bool) \<Rightarrow> int \<Rightarrow> request \<Rightarrow> state
     \<Rightarrow> response \<times> state" where
  "updateTask oid populates saves now req s =
     (if \<not> errors_empty req then discard_uploads req ValidationFailed s
      else case findById (param_id req) s of
        None \<Rightarrow> discard_uploads req TaskNotFound s
      | Some t \<Rightarrow>
          if user_role req \<noteq> ADMIN \<and> createdBy t \<noteq> user_id req
            then discard_uploads req (Forbidden Update) s
          else if truthy (b_assignedTo req)
                  \<and> User_findById oid (b_assignedTo req) s = Cast_fails
            then discard_uploads req TaskNotFound s
          else if truthy (b_assignedTo req)
                  \<and> User_findById oid (b_assignedTo req) s = No_user
            then discard_uploads req AssignedUserNotFound s
          else if (case b_existing req of None \<Rightarrow> False | Some items \<Rightarrow> Bad_json \<in> set items)
            then discard_uploads req ServerError s
          else
            let s1 = s\<lparr>disk :=
                       removeStored (documentsToRemove (b_existing req) (attachedDocuments t))
                         (disk s)\<rparr>
            in if length (docsToRetain (b_existing req) (attachedDocuments t))
                    + length (files req) > MAX_DOCUMENTS_PER_TASK
                 then discard_uploads req TooManyDocuments s1
               else if saves (updated_task now req s t)
                 then let s2 = s1\<lparr>tasks := replace_task (updated_task now req s t) (tasks s),
                                 next_oid := next_oid s + length (files req)\<rparr>
                      in if populates then (Ok_task (updated_task now req s t), s2)
                         else discard_uploads req ServerError s2
               else discard_uploads req ServerError s1)"

subsection \<open>deleteTask\<close>

text \<open>
  \<open>deleted\<close> stands for the outcome of \<open>Task.deleteOne\<close>: the store removes the record or
  throws, and then the \<open>catch\<close> block answers 500 with the files already gone.
\<close>

definition deleteTask :: "bool \<Rightarrow> request \<Rightarrow> state \<Rightarrow> response \<times> state" where
  "deleteTask deleted req s =
     (case findById (param_id req) s of
        None \<Rightarrow> (TaskNotFound, s)
      | Some t \<Rightarrow>
          if user_role req \<noteq> ADMIN \<and> createdBy t \<noteq> user_id req
            then (Forbidden Delete, s)
          else
            let s1 = s\<lparr>disk := removeStored (attachedDocuments t) (disk s)\<rparr>
            in if deleted then (Ok_deleted, s1\<lparr>tasks := deleteOne (param_id req) (tasks s)\<rparr>)
               else (ServerError, s1))"

subsection \<open>getTasks\<close>

text \<open>The query string of \<open>GET /api/tasks\<close>.\<close>

record list_params =
  q_status :: "string option"
  q_priority :: "string option"
  q_dueDate :: date_param
  q_assignedTo :: "string option"
  q_search :: "string option"
  q_sortBy :: "string option"
  q_sortOrder :: "string option"
  q_page :: "nat option"
  q_limit :: "nat option"

text \<open>
  The filter object handed to \<open>Task.find\<close>. Its top-level keys must all hold; \<open>$or\<close>, when
  present, holds if one of its clauses does.
\<close>

datatype clause =
    Title_regex string
  | Description_regex string
  | CreatedBy_is string
  | AssignedTo_is string

record query =
  f_status :: "string option"
  f_priority :: "string option"
  f_dueDate_lte :: "int option"
  f_assignedTo :: "string option"
  f_or :: "clause list option"

definition empty_query :: query where
  "empty_query =
     \<lparr>f_status = None, f_priority = None, f_dueDate_lte = None, f_assignedTo = None,
      f_or = None\<rparr>"

text \<open>
  The filtering block followed by the role block. The role block appends its two clauses
  to whatever \<open>$or\<close> the search block has already stored.
\<close>

definition build_query :: "list_params \<Rightarrow> string \<Rightarrow> string \<Rightarrow> query" where
  "build_query p uid role =
     (let q0 = empty_query;
          q1 = (if truthy (q_status p) then q0\<lparr>f_status := q_status p\<rparr> else q0);
          q2 = (if truthy (q_priority p) then q1\<lparr>f_priority := q_priority p\<rparr> else q1);
          q3 = (case q_dueDate p of Date d \<Rightarrow> q2\<lparr>f_dueDate_lte := Some d\<rparr> | _ \<Rightarrow> q2);
          q4 = (if truthy (q_assignedTo p) then q3\<lparr>f_assignedTo := q_assignedTo p\<rparr> else q3);
          q5 = (case q_search p of
                  None \<Rightarrow> q4
                | Some x \<Rightarrow> if x = [] then q4
                            else q4\<lparr>f_or := Some [Title_regex x, Description_regex x]\<rparr>)
      in if role \<noteq> ADMIN
           then q5\<lparr>f_or := Some ((case f_or q5 of None \<Rightarrow> [] | Some cs \<Rightarrow> cs)
                                    @ [CreatedBy_is uid, AssignedTo_is uid])\<rparr>
         else q5)"

text \<open>
  How the store evaluates the filter. \<open>rx pat txt\<close> is the store's \<open>$regex\<close> match with
  option \<open>i\<close>.
\<close>

fun holds :: "(string \<Rightarrow> string \<Rightarrow> bool) \<Rightarrow> clause \<Rightarrow> task \<Rightarrow> bool" where
  "holds rx (Title_regex x) t = rx x (title t)"
| "holds rx (Description_regex x) t = rx x (description t)"
| "holds rx (CreatedBy_is u) t = (createdBy t = u)"
| "holds rx (AssignedTo_is u) t = (assignedTo t = u)"

definition matches :: "(string \<Rightarrow> string \<Rightarrow> bool) \<Rightarrow> query \<Rightarrow> task \<Rightarrow> bool" where
  "matches rx q t =
     ((case f_status q of None \<Rightarrow> True | Some v \<Rightarrow> status t = v)
      \<and> (case f_priority q of None \<Rightarrow> True | Some v \<Rightarrow> priority t = v)
      \<and> (case f_dueDate_lte q of None \<Rightarrow> True | Some d \<Rightarrow> dueDate t \<le> d)
      \<and> (case f_assignedTo q of None \<Rightarrow> True | Some v \<Rightarrow> assignedTo t = v)
      \<and> (case f_or q of None \<Rightarrow> True | Some cs \<Rightarrow> list_ex (\<lambda>c. holds rx c t) cs))"

text \<open>
  Sorting: the sort key, and whether the order is ascending. A \<open>sortBy\<close> outside the five
  known fields (or none at all) sorts by creation time, newest first.
\<close>

definition sort_field :: "string option \<Rightarrow> string option \<Rightarrow> string \<times> bool" where
  "sort_field sortBy sortOrder =
     (case sortBy of
        None \<Rightarrow> (''createdAt'', False)
      | Some k \<Rightarrow>
          if k \<in> set [''createdAt'', ''dueDate'', ''priority'', ''status'', ''title'']
            then (k, sortOrder = Some ''asc'')
          else (''createdAt'', False))"

definition key_le :: "string \<Rightarrow> task \<Rightarrow> task \<Rightarrow> bool" where
  "key_le k a b =
     (if k = ''dueDate'' then dueDate a \<le> dueDate b
      else if k = ''priority'' then priority a \<le> priority b
      else if k = ''status'' then status a \<le> status b
      else if k = ''title'' then title a \<le> title b
      else createdAt a \<le> createdAt b)"

fun insert_by :: "('a \<Rightarrow> 'a \<Rightarrow> bool) \<Rightarrow> 'a \<Rightarrow> 'a list \<Rightarrow> 'a list" where
  "insert_by le x [] = [x]"
| "insert_by le x (y # ys) = (if le x y then x # y # ys else y # insert_by le x ys)"

definition sort_tasks :: "string \<times> bool \<Rightarrow> task list \<Rightarrow> task list" where
  "sort_tasks spec ts =
     foldr (insert_by (\<lambda>a b. if snd spec then key_le (fst spec) a b else key_le (fst spec) b a))
       ts []"

text \<open>
  \<open>.skip((page - 1) * limit).limit(limit)\<close>. The store rejects a negative skip and reads
  a limit of zero as no limit.
\<close>

definition paginate :: "nat \<Rightarrow> nat \<Rightarrow> task list \<Rightarrow> task list option" where
  "paginate page lim ts =
     (if (int page - 1) * int lim < 0 then None
      else let rest = drop ((page - 1) * lim) ts
           in Some (if lim = 0 then rest else take lim rest))"

definition find_tasks ::
  "(string \<Rightarrow> string \<Rightarrow> bool) \<Rightarrow> list_params \<Rightarrow> string \<times> bool \<Rightarrow> nat \<Rightarrow> nat \<Rightarrow> string
     \<Rightarrow> string \<Rightarrow> state \<Rightarrow> response" where
  "find_tasks rx p spec page lim uid role s =
     (case paginate page lim
             (sort_tasks spec (filter (matches rx (build_query p uid role)) (tasks s))) of
        None \<Rightarrow> ServerError
      | Some ts \<Rightarrow> Ok_tasks ts)"

text \<open>
  The controller defaults \<open>sortBy\<close> to \<open>createdAt\<close>, \<open>page\<close> to 1 and \<open>limit\<close> to 10 when the
  query string leaves them out.
\<close>

definition getTasks ::
  "(string \<Rightarrow> string \<Rightarrow> bool) \<Rightarrow> list_params \<Rightarrow> string \<Rightarrow> string \<Rightarrow> state \<Rightarrow> response" where
  "getTasks rx p uid role s =
     find_tasks rx p
       (sort_field (Some (case q_sortBy p of None \<Rightarrow> ''createdAt'' | Some k \<Rightarrow> k))
          (q_sortOrder p))
       (case q_page p of None \<Rightarrow> 1 | Some n \<Rightarrow> n)
       (case q_limit p of None \<Rightarrow> 10 | Some n \<Rightarrow> n) uid role s"

subsection \<open>downloadDocument\<close>

text \<open>
  \<open>path.join\<close> of two POSIX paths: the non-empty arguments are joined with a slash and
  the result is normalised. Normalising drops empty and \<open>.\<close> segments, lets \<open>..\<close> remove the
  segment before it (or keeps it in front of a relative path, or drops it at the root of
  an absolute one), and keeps a trailing slash.
\<close>

fun split_slash :: "string \<Rightarrow> string \<Rightarrow> string list" where
  "split_slash cur [] = [rev cur]"
| "split_slash cur (c # cs) =
     (if c = CHR ''/'' then rev cur # split_slash [] cs else split_slash (c # cur) cs)"

fun normalizeString :: "bool \<Rightarrow> string list \<Rightarrow> string list \<Rightarrow> string list" where
  "normalizeString allowAboveRoot acc [] = rev acc"
| "normalizeString allowAboveRoot acc (g # gs) =
     (if g = [] \<or> g = ''.'' then normalizeString allowAboveRoot acc gs
      else if g = ''..'' then
        (case acc of
           [] \<Rightarrow> normalizeString allowAboveRoot (if allowAboveRoot then [''..''] else []) gs
         | a # rest \<Rightarrow>
             if a = ''..''
               then normalizeString allowAboveRoot (if allowAboveRoot then ''..'' # acc else acc) gs
             else normalizeString allowAboveRoot rest gs)
      else normalizeString allowAboveRoot (g # acc) gs)"

fun join_slash :: "string list \<Rightarrow> string" where
  "join_slash [] = []"
| "join_slash [g] = g"
| "join_slash (g # gs) = g @ ''/'' @ join_slash gs"

definition normalize_path :: "string \<Rightarrow> string" where
  "normalize_path p =
     (if p = [] then ''.''
      else let isAbsolute = (hd p = CHR ''/'');
               trailingSeparator = (last p = CHR ''/'');
               res = join_slash (normalizeString (\<not> isAbsolute) [] (split_slash [] p))
           in if res = [] then (if isAbsolute then ''/'' else if trailingSeparator then ''./'' else ''.'')
              else (if isAbsolute then ''/'' else []) @ res @ (if trailingSeparator then ''/'' else []))"

definition path_join :: "string \<Rightarrow> string \<Rightarrow> string" where
  "path_join a b =
     (if a = [] \<and> b = [] then ''.''
      else if a = [] then normalize_path b
      else if b = [] then normalize_path a
      else normalize_path (a @ ''/'' @ b))"

text \<open>
  \<open>uploads\<close> is \<open>path.join(__dirname, '..', 'uploads')\<close> and \<open>env\<close> is
  \<open>process.env.UPLOAD_PATH\<close>. The guard in front of the \<open>try\<close> block answers 400 when the
  joined path does not start with the uploads directory. \<open>Task.findOne\<close> returns the first
  task with an attachment of that file name.
\<close>

definition findOne_by_filename :: "string \<Rightarrow> state \<Rightarrow> task option" where
  "findOne_by_filename fname s =
     find (\<lambda>t. fname \<in> set (map filename (attachedDocuments t))) (tasks s)"

definition downloadDocument ::
  "string \<Rightarrow> string option \<Rightarrow> string \<Rightarrow> string \<Rightarrow> string \<Rightarrow> state \<Rightarrow> response" where
  "downloadDocument uploads env fname uid role s =
     (let filePath = path_join (or_else env uploads) fname
      in if \<not> prefix uploads filePath then InvalidFilePath
         else case findOne_by_filename fname s of
           None \<Rightarrow> DocumentNotFound
         | Some t \<Rightarrow>
             if role \<noteq> ADMIN \<and> createdBy t \<noteq> uid \<and> assignedTo t \<noteq> uid
               then Forbidden Download
             else if filePath \<in> disk s then Ok_download filePath fname
             else FileMissingOnDisk)"

section \<open>services/taskService.js\<close>

text \<open>
  The service functions throw an error carrying a status code where the controller answers
  directly; the thrown error is the response here. They leave uploaded files alone. An
  error of the store or of the populate chain passes through them and is \<open>ServerError\<close>.
\<close>

definition svc_getTasks ::
  "(string \<Rightarrow> string \<Rightarrow> bool) \<Rightarrow> list_params \<Rightarrow> string \<Rightarrow> string \<Rightarrow> state \<Rightarrow> response" where
  "svc_getTasks rx p uid role s =
     (case (q_page p, q_limit p) of
        (Some page, Some lim) \<Rightarrow>
          find_tasks rx p (sort_field (q_sortBy p) (q_sortOrder p)) page lim uid role s
      | _ \<Rightarrow> ServerError)"

text \<open>
  \<open>updateData\<close> is an object: a map from keys to values. A value is text or a date.
  \<open>Object.keys(updateData).forEach(key => task[key] = updateData[key])\<close> skips the two
  document keys and assigns every other key; the keys that are paths of the task schema
  are the ones that change the record.
\<close>

datatype val = Text string | Time int

definition text_key :: "(string \<rightharpoonup> val) \<Rightarrow> string \<Rightarrow> string \<Rightarrow> string" where
  "text_key u k old = (case u k of Some (Text x) \<Rightarrow> x | _ \<Rightarrow> old)"

definition time_key :: "(string \<rightharpoonup> val) \<Rightarrow> string \<Rightarrow> int \<Rightarrow> int" where
  "time_key u k old = (case u k of Some (Time x) \<Rightarrow> x | _ \<Rightarrow> old)"

definition apply_updates :: "(string \<rightharpoonup> val) \<Rightarrow> task \<Rightarrow> task" where
  "apply_updates u t =
     t\<lparr>title := text_key u ''title'' (title t),
       description := text_key u ''description'' (description t),
       status := text_key u ''status'' (status t),
       priority := text_key u ''priority'' (priority t),
       dueDate := time_key u ''dueDate'' (dueDate t),
       assignedTo := text_key u ''assignedTo'' (assignedTo t),
       createdBy := text_key u ''createdBy'' (createdBy t),
       createdAt := time_key u ''createdAt'' (createdAt t)\<rparr>"

definition svc_retained :: "nat option list \<Rightarrow> document \<Rightarrow> bool" where
  "svc_retained keep d = (Some (doc_id d) \<in> set keep)"

definition svc_updated_task ::
  "int \<Rightarrow> (string \<rightharpoonup> val) \<Rightarrow> upload list \<Rightarrow> nat option list \<Rightarrow> state \<Rightarrow> task \<Rightarrow> task" where
  "svc_updated_task now u newFiles keep s t =
     (apply_updates u t)
       \<lparr>attachedDocuments :=
          filter (svc_retained keep) (attachedDocuments t) @ mk_docs (next_oid s) newFiles,
        updatedAt := now\<rparr>"

definition svc_updateTask ::
  "(string \<Rightarrow> bool) \<Rightarrow> bool \<Rightarrow> (task \<Rightarrow> bool) \<Rightarrow> int \<Rightarrow> nat \<Rightarrow> (string \<rightharpoonup> val) \<Rightarrow> upload list
     \<Rightarrow> nat option list \<Rightarrow> string \<Rightarrow> string \<Rightarrow> state \<Rightarrow> response \<times> state" where
  "svc_updateTask oid populates saves now tid u newFiles keep uid role s =
     (case findById tid s of
        None \<Rightarrow> (TaskNotFound, s)
      | Some t \<Rightarrow>
          if role \<noteq> ADMIN \<and> createdBy t \<noteq> uid then (Forbidden Update, s)
          else case (case u ''assignedTo'' of
                       Some (Text a) \<Rightarrow>
                         if a \<noteq> [] \<and> a \<noteq> assignedTo t then User_findById oid (Some a) s
                         else Found_user
                     | _ \<Rightarrow> Found_user) of
            Cast_fails \<Rightarrow> (CastError, s)
          | No_user \<Rightarrow> (AssignedUserNotFound, s)
          | Found_user \<Rightarrow>
              let s1 = s\<lparr>disk :=
                         removeStored
                           (filter (\<lambda>d. \<not> svc_retained keep d) (attachedDocuments t)) (disk s)\<rparr>
              in if length (filter (svc_retained keep) (attachedDocuments t)) + length newFiles
                      > MAX_DOCUMENTS_PER_TASK
                   then (TooManyDocuments, s1)
                 else if saves (svc_updated_task now u newFiles keep s t)
                   then let s2 = s1\<lparr>tasks :=
                                     replace_task (svc_updated_task now u newFiles keep s t)
                                       (tasks s),
                                   next_oid := next_oid s + length newFiles\<rparr>
                        in if populates
                             then (Ok_task (svc_updated_task now u newFiles keep s t), s2)
                           else (ServerError, s2)
                 else (ServerError, s1))"

text \<open>\<open>getDocumentPath\<close> joins the file name onto the uploads directory itself.\<close>

definition getDocumentPath :: "string \<Rightarrow> string \<Rightarrow> string \<Rightarrow> string \<Rightarrow> state \<Rightarrow> response" where
  "getDocumentPath uploads fname uid role s =
     (let filePath = path_join uploads fname
      in if \<not> prefix uploads filePath then InvalidFilePath
         else case findOne_by_filename fname s of
           None \<Rightarrow> DocumentNotFound
         | Some t \<Rightarrow>
             if role \<noteq> ADMIN \<and> createdBy t \<noteq> uid \<and> assignedTo t \<noteq> uid
               then Forbidden Download
             else if filePath \<notin> disk s then FileMissingOnDisk
             else Ok_download filePath fname)"

section \<open>Conditions used in the statements\<close>

text \<open>
  The uploaded files of a request are on disk under pairwise different paths, as the
  multipart parser leaves them.
\<close>

definition uploads_stored :: "request \<Rightarrow> string set \<Rightarrow> bool" where
  "uploads_stored req d =
     (distinct (map file_path (files req)) \<and> set (map file_path (files req)) \<subseteq> d)"

text \<open>The attachment cap as a property of the whole collection.\<close>

definition cap_inv :: "state \<Rightarrow> bool" where
  "cap_inv s = (\<forall>t \<in> set (tasks s). length (attachedDocuments t) \<le> MAX_DOCUMENTS_PER_TASK)"

text \<open>
  A matcher to run the list query with: for a pattern of letters and digits the regular
  expression with option \<open>i\<close> matches exactly where the text contains the pattern, case
  ignored.
\<close>

definition lower :: "char \<Rightarrow> char" where
  "lower c = (if CHR ''A'' \<le> c \<and> c \<le> CHR ''Z'' then char_of (of_char c + (32::nat)) else c)"

fun contains :: "string \<Rightarrow> string \<Rightarrow> bool" where
  "contains p [] = (p = [])"
| "contains p (c # cs) = (prefix p (c # cs) \<or> contains p cs)"

definition icontains :: "string \<Rightarrow> string \<Rightarrow> bool" where
  "icontains p t = contains (map lower p) (map lower t)"

section \<open>Example data\<close>

text \<open>
  A cast test to run the handlers with: a text of 24 hexadecimal digits is an ObjectId
  text for every version of the driver; the empty text and shorter texts are not.
\<close>

definition hex24 :: "string \<Rightarrow> bool" where
  "hex24 a = (length a = 24 \<and> list_all (\<lambda>c. c \<in> set ''0123456789abcdefABCDEF'') a)"

text \<open>The ids of three users, and of dave, who has no account.\<close>

definition alice :: string where
  "alice = ''aaaaaaaaaaaaaaaaaaaaaaaa''"

definition bob :: string where
  "bob = ''bbbbbbbbbbbbbbbbbbbbbbbb''"

definition carol :: string where
  "carol = ''cccccccccccccccccccccccc''"

definition dave :: string where
  "dave = ''dddddddddddddddddddddddd''"

definition doc1 :: document where
  "doc1 = \<lparr>doc_id = 8, filename = ''report.pdf'', path = ''/app/uploads/f1.pdf'',
           mimetype = ''application/pdf''\<rparr>"

definition doc2 :: document where
  "doc2 = \<lparr>doc_id = 9, filename = ''notes.pdf'', path = ''/app/uploads/f2.pdf'',
           mimetype = ''application/pdf''\<rparr>"

text \<open>A task created by alice and assigned to bob, with two attachments.\<close>

definition task1 :: task where
  "task1 = \<lparr>task_id = 7, title = ''Budget'', description = ''Plan the budget'',
            status = ''To Do'', priority = ''Low'', dueDate = 100, assignedTo = bob,
            createdBy = alice, attachedDocuments = [doc1, doc2], createdAt = 10,
            updatedAt = 10\<rparr>"

definition st0 :: state where
  "st0 = \<lparr>tasks = [task1], users = {alice, bob, carol},
          disk = {''/app/uploads/f1.pdf'', ''/app/uploads/f2.pdf'', ''/app/uploads/n1.pdf'',
                  ''/app/uploads/n2.pdf'', ''/app/uploads/n3.pdf''},
          next_oid = 10\<rparr>"

definition new1 :: upload where
  "new1 = \<lparr>originalname = ''a.pdf'', file_path = ''/app/uploads/n1.pdf'',
           file_mimetype = ''application/pdf''\<rparr>"

definition new2 :: upload where
  "new2 = \<lparr>originalname = ''b.pdf'', file_path = ''/app/uploads/n2.pdf'',
           file_mimetype = ''application/pdf''\<rparr>"


text \<open>
  A second task, carol's own, with an attachment that has the same file name as \<open>doc1\<close>.
\<close>

definition doc3 :: document where
  "doc3 = \<lparr>doc_id = 5, filename = ''report.pdf'', path = ''/app/uploads/f3.pdf'',
           mimetype = ''application/pdf''\<rparr>"

definition task2 :: task where
  "task2 = \<lparr>task_id = 4, title = ''Audit'', description = ''Yearly audit'',
            status = ''Done'', priority = ''High'', dueDate = 90, assignedTo = carol,
            createdBy = carol, attachedDocuments = [doc3], createdAt = 5,
            updatedAt = 5\<rparr>"

definition st2 :: state where
  "st2 = st0\<lparr>tasks := [task1, task2]\<rparr>"

text \<open>A query string with no parameter.\<close>

definition params0 :: list_params where
  "params0 = \<lparr>q_status = None, q_priority = None, q_dueDate = No_date, q_assignedTo = None,
              q_search = None, q_sortBy = None, q_sortOrder = None, q_page = None,
              q_limit = None\<rparr>"

text \<open>A valid request by alice on \<open>task1\<close> that sends no field and no file.\<close>

definition req0 :: request where
  "req0 = \<lparr>errors_empty = True, user_id = alice, user_role = ''user'', param_id = 7,
           files = [], b_title = None, b_description = None, b_status = None,
           b_priority = None, b_dueDate = No_date, b_assignedTo = None, b_createdBy = None,
           b_existing = None\<rparr>"

definition accept :: "task \<Rightarrow> bool" where
  "accept t = True"

section \<open>Auxiliary facts\<close>

lemma ids_differ [simp]:
  "alice \<noteq> bob" "alice \<noteq> carol" "alice \<noteq> dave" "bob \<noteq> alice" "bob \<noteq> carol"
  "bob \<noteq> dave" "carol \<noteq> alice" "carol \<noteq> bob" "carol \<noteq> dave" "dave \<noteq> alice"
  "dave \<noteq> bob" "dave \<noteq> carol" "alice \<noteq> []" "bob \<noteq> []" "carol \<noteq> []" "dave \<noteq> []"
  by (simp_all add: alice_def bob_def carol_def dave_def)

lemma ids_hex24 [simp]:
  "hex24 alice" "hex24 bob" "hex24 carol" "hex24 dave" "\<not> hex24 []" "\<not> hex24 ''nobody''"
  by (simp_all add: hex24_def alice_def bob_def carol_def dave_def)

lemma unlinkEach_stored:
  "distinct ps \<Longrightarrow> set ps \<subseteq> d \<Longrightarrow> unlinkEach ps d = (d - set ps, True)"
proof (induction ps arbitrary: d)
  case Nil
  then show ?case by simp
next
  case (Cons p ps)
  from Cons.prems have "distinct ps" and "set ps \<subseteq> d - {p}" and "p \<in> d"
    by auto
  with Cons.IH [of "d - {p}"] show ?case
    by auto
qed

lemma removeStored_eq: "removeStored xs d = d - path ` set xs"
  by (induction xs arbitrary: d) auto

lemma discard_uploads_stored:
  "uploads_stored req (disk s) \<Longrightarrow>
   discard_uploads req r s = (r, s\<lparr>disk := disk s - set (map file_path (files req))\<rparr>)"
  by (simp add: discard_uploads_def uploads_stored_def unlinkEach_stored)

lemma discard_uploads_tasks: "tasks (snd (discard_uploads req r s)) = tasks s"
  by (simp add: discard_uploads_def split: prod.splits)

lemma discard_uploads_neq:
  "r \<noteq> x \<Longrightarrow> x \<noteq> Unhandled \<Longrightarrow> fst (discard_uploads req r s) \<noteq> x"
  by (simp add: discard_uploads_def split: prod.splits)

lemma length_mk_docs: "length (mk_docs n fs) = length fs"
  by (induction fs arbitrary: n) auto

lemma replace_task_set: "set (replace_task t' ts) \<subseteq> insert t' (set ts)"
  by (induction ts) auto

lemma replace_task_all:
  "\<forall>x \<in> set ts. P x \<Longrightarrow> P t' \<Longrightarrow> \<forall>x \<in> set (replace_task t' ts). P x"
  using replace_task_set [of t' ts] by auto

lemma findById_mem: "findById tid s = Some t \<Longrightarrow> t \<in> set (tasks s) \<and> task_id t = tid"
  by (auto simp: findById_def find_Some_iff)

lemma cap_inv_discard: "cap_inv (snd (discard_uploads req r s)) = cap_inv s"
  by (simp add: cap_inv_def discard_uploads_tasks)

lemma createTask_cap: "cap_inv s \<Longrightarrow> cap_inv (snd (createTask oid populates saves now req s))"
  by (simp add: createTask_def Let_def cap_inv_discard split: lookup.splits)
     (simp add: cap_inv_def new_task_def length_mk_docs)

lemma createTask_Created:
  "fst (createTask oid populates saves now req s) = Created t \<Longrightarrow>
     t = new_task now req s \<and> length (files req) \<le> MAX_DOCUMENTS_PER_TASK"
  by (simp add: createTask_def Let_def discard_uploads_neq split: if_splits lookup.splits)

lemma updateTask_Ok:
  "fst (updateTask oid populates saves now req s) = Ok_task t' \<Longrightarrow>
     \<exists>t. findById (param_id req) s = Some t \<and> t' = updated_task now req s t
        \<and> length (docsToRetain (b_existing req) (attachedDocuments t)) + length (files req)
             \<le> MAX_DOCUMENTS_PER_TASK
        \<and> snd (updateTask oid populates saves now req s) =
             s\<lparr>disk := removeStored (documentsToRemove (b_existing req) (attachedDocuments t))
                        (disk s),
               tasks := replace_task t' (tasks s),
               next_oid := next_oid s + length (files req)\<rparr>"
  by (auto simp: updateTask_def Let_def discard_uploads_neq split: if_splits option.splits)

lemma updateTask_tasks_cases:
  "tasks (snd (updateTask oid populates saves now req s)) = tasks s
   \<or> (\<exists>t. findById (param_id req) s = Some t
          \<and> length (docsToRetain (b_existing req) (attachedDocuments t)) + length (files req)
               \<le> MAX_DOCUMENTS_PER_TASK
          \<and> tasks (snd (updateTask oid populates saves now req s))
               = replace_task (updated_task now req s t) (tasks s))"
  by (auto simp: updateTask_def Let_def discard_uploads_tasks split: option.splits)

lemma updateTask_cap:
  assumes "cap_inv s"
  shows "cap_inv (snd (updateTask oid populates saves now req s))"
  using updateTask_tasks_cases [of oid populates saves now req s]
proof (elim disjE exE conjE)
  assume "tasks (snd (updateTask oid populates saves now req s)) = tasks s"
  with assms show ?thesis by (simp add: cap_inv_def)
next
  fix t
  assume len: "length (docsToRetain (b_existing req) (attachedDocuments t)) + length (files req)
             \<le> MAX_DOCUMENTS_PER_TASK"
    and st: "tasks (snd (updateTask oid populates saves now req s))
               = replace_task (updated_task now req s t) (tasks s)"
  have "length (attachedDocuments (updated_task now req s t)) \<le> MAX_DOCUMENTS_PER_TASK"
    using len by (simp add: updated_task_def length_mk_docs)
  with assms show ?thesis
    unfolding cap_inv_def st by (intro replace_task_all) auto
qed

lemma st0_findById: "findById 7 st0 = Some task1"
  by (simp add: findById_def st0_def task1_def)

lemma find_replace_task:
  "find (\<lambda>x. task_id x = tid) ts = Some t \<Longrightarrow> task_id t' = tid \<Longrightarrow>
   find (\<lambda>x. task_id x = tid) (replace_task t' ts) = Some t'"
  by (induction ts) (auto split: if_splits)

lemma task_id_updated [simp]: "task_id (updated_task now req s t) = task_id t"
  by (simp add: updated_task_def)

lemma or_else_falsy: "\<not> truthy v \<Longrightarrow> or_else v d = d"
  by (cases v) auto

lemma or_else_nonempty: "d \<noteq> [] \<Longrightarrow> or_else v d \<noteq> []"
  by (cases v) auto

lemma deleteOne_set: "set (deleteOne tid ts) \<subseteq> set ts"
  by (induction ts) auto

lemma deleteOne_distinct:
  "distinct (map task_id ts) \<Longrightarrow> x \<in> set (deleteOne tid ts) \<Longrightarrow> task_id x \<noteq> tid"
proof (induction ts)
  case Nil
  then show ?case by simp
next
  case (Cons a ts)
  show ?case
  proof (cases "task_id a = tid")
    case True
    with Cons.prems have "x \<in> set ts" and "tid \<notin> task_id ` set ts"
      by auto
    then show ?thesis by auto
  next
    case False
    with Cons show ?thesis by auto
  qed
qed

lemma findOne_by_filename_None:
  "(findOne_by_filename fname s = None)
     = (\<forall>t \<in> set (tasks s). fname \<notin> set (map filename (attachedDocuments t)))"
  by (auto simp: findOne_by_filename_def find_None_iff)

lemma getDocumentPath_eq:
  "getDocumentPath uploads fname uid role s = downloadDocument uploads None fname uid role s"
  by (auto simp: getDocumentPath_def downloadDocument_def Let_def split: option.splits)

lemma icontains_audit:
  "icontains ''audit'' ''Audit''" "\<not> icontains ''audit'' ''Budget''"
  "\<not> icontains ''audit'' ''Plan the budget''" "icontains ''audit'' ''Yearly audit''"
  by code_simp+

lemma st0_fields:
  "tasks st0 = [task1]" "next_oid st0 = 10" "users st0 = {alice, bob, carol}"
  by (simp_all add: st0_def)

lemma set_insert_by: "set (insert_by le x xs) = insert x (set xs)"
  by (induction xs) auto

lemma set_sort_tasks: "set (sort_tasks spec ts) = set ts"
  by (induction ts) (simp_all add: sort_tasks_def set_insert_by)

lemma paginate_subset: "paginate page lim ts = Some rs \<Longrightarrow> set rs \<subseteq> set ts"
  using set_take_subset [of lim "drop ((page - 1) * lim) ts"]
    set_drop_subset [of "(page - 1) * lim" ts]
  by (auto simp: paginate_def Let_def split: if_splits)

lemma find_tasks_sound:
  "find_tasks rx p spec page lim uid role s = Ok_tasks rs \<Longrightarrow> t \<in> set rs \<Longrightarrow>
     t \<in> set (tasks s) \<and> matches rx (build_query p uid role) t"
  using paginate_subset
  by (fastforce simp: find_tasks_def set_sort_tasks split: option.splits)

lemma matches_build_query:
  "matches rx (build_query p uid role) t =
     ((truthy (q_status p) \<longrightarrow> q_status p = Some (status t))
      \<and> (truthy (q_priority p) \<longrightarrow> q_priority p = Some (priority t))
      \<and> (\<forall>d. q_dueDate p = Date d \<longrightarrow> dueDate t \<le> d)
      \<and> (truthy (q_assignedTo p) \<longrightarrow> q_assignedTo p = Some (assignedTo t))
      \<and> (if role \<noteq> ADMIN
          then (\<exists>x. q_search p = Some x \<and> x \<noteq> [] \<and> (rx x (title t) \<or> rx x (description t)))
               \<or> createdBy t = uid \<or> assignedTo t = uid
          else (\<forall>x. q_search p = Some x \<and> x \<noteq> [] \<longrightarrow> rx x (title t) \<or> rx x (description t))))"
  by (cases "q_status p"; cases "q_priority p"; cases "q_dueDate p"; cases "q_assignedTo p";
      cases "q_search p")
     (auto simp: matches_def build_query_def Let_def empty_query_def)

lemma matches_no_search:
  "role \<noteq> ADMIN \<Longrightarrow> \<not> truthy (q_search p) \<Longrightarrow> matches rx (build_query p uid role) t \<Longrightarrow>
     createdBy t = uid \<or> assignedTo t = uid"
  by (cases "q_search p") (auto simp: matches_build_query)

lemma getTasks_no_search_own:
  assumes "role \<noteq> ADMIN" and "\<not> truthy (q_search p)"
    and "getTasks rx p uid role s = Ok_tasks rs" and "t \<in> set rs"
  shows "createdBy t = uid \<or> assignedTo t = uid"
  using find_tasks_sound [OF assms(3) [unfolded getTasks_def] assms(4)]
    matches_no_search [OF assms(1,2)]
  by blast

lemma createTask_forces_creator:
  "fst (createTask oid populates saves now req s) = Created t \<Longrightarrow> createdBy t = user_id req"
  using createTask_Created [of oid populates saves now req s t] by (simp add: new_task_def)

lemma updateTask_keeps_creator:
  "fst (updateTask oid populates saves now req s) = Ok_task t' \<Longrightarrow> findById (param_id req) s = Some t \<Longrightarrow>
     createdBy t' = createdBy t"
  using updateTask_Ok [of oid populates saves now req s t'] by (auto simp: updated_task_def)

lemma unlinkEach_subset: "fst (unlinkEach ps d) \<subseteq> d"
  by (induction ps arbitrary: d) (auto split: if_splits)

lemma discard_uploads_disk: "disk (snd (discard_uploads req r s)) \<subseteq> disk s"
  using unlinkEach_subset [of "map file_path (files req)" "disk s"]
  by (auto simp: discard_uploads_def split: prod.splits)

lemma mk_docs_fields:
  "map (\<lambda>d. (filename d, path d, mimetype d)) (mk_docs n fs)
     = map (\<lambda>f. (originalname f, file_path f, file_mimetype f)) fs"
  by (induction fs arbitrary: n) auto

lemma mk_docs_ids: "map doc_id (mk_docs n fs) = [n ..< n + length fs]"
proof (induction fs arbitrary: n)
  case Nil
  then show ?case by simp
next
  case (Cons f fs)
  have "[n ..< n + length (f # fs)] = n # [Suc n ..< Suc n + length fs]"
    by (simp add: upt_conv_Cons del: upt_Suc)
  with Cons.IH [of "Suc n"] show ?case
    by simp
qed

section \<open>Access to update and delete\<close>

text \<open>
  C2. For a task found in the collection, \<open>updateTask\<close> (on a validated request whose
  uploads are on disk) answers 403 exactly when the actor is neither an admin nor the
  creator of the task, and so does \<open>deleteTask\<close>; whatever fields, retained documents or
  files the request carries plays no part. An actor who is only the assignee is
  therefore refused by both.
\<close>

theorem update_delete_access:
  assumes "errors_empty req"
    and "findById (param_id req) s = Some t"
    and "uploads_stored req (disk s)"
  shows "((fst (updateTask oid populates saves now req s) = Forbidden Update)
            = (\<not> (user_role req = ADMIN \<or> user_id req = createdBy t)))
       \<and> ((fst (deleteTask deleted req s) = Forbidden Delete)
            = (\<not> (user_role req = ADMIN \<or> user_id req = createdBy t)))"
proof -
  have del: "(fst (deleteTask deleted req s) = Forbidden Delete)
            = (\<not> (user_role req = ADMIN \<or> user_id req = createdBy t))"
    using assms(2) by (auto simp: deleteTask_def Let_def)
  have upd: "(fst (updateTask oid populates saves now req s) = Forbidden Update)
            = (\<not> (user_role req = ADMIN \<or> user_id req = createdBy t))"
  proof (cases "user_role req = ADMIN \<or> user_id req = createdBy t")
    case False
    then show ?thesis
      using assms by (auto simp: updateTask_def discard_uploads_stored)
  next
    case True
    have "fst (updateTask oid populates saves now req s) \<noteq> Forbidden Update"
      using assms(1,2) True
      by (auto simp: updateTask_def Let_def discard_uploads_neq)
    with True show ?thesis by simp
  qed
  from upd del show ?thesis by simp
qed

text \<open>Bob is the assignee of \<open>task1\<close> and nothing else: both operations refuse him.\<close>

theorem update_delete_access_witness:
  "errors_empty (req0\<lparr>user_id := bob\<rparr>)
   \<and> findById (param_id (req0\<lparr>user_id := bob\<rparr>)) st0 = Some task1
   \<and> uploads_stored (req0\<lparr>user_id := bob\<rparr>) (disk st0)
   \<and> assignedTo task1 = bob
   \<and> fst (updateTask hex24 True accept 50 (req0\<lparr>user_id := bob\<rparr>) st0) = Forbidden Update
   \<and> fst (deleteTask True (req0\<lparr>user_id := bob\<rparr>) st0) = Forbidden Delete"
proof -
  let ?r = "req0\<lparr>user_id := bob\<rparr>"
  have h1: "errors_empty ?r"
    by (simp add: req0_def)
  have h2: "findById (param_id ?r) st0 = Some task1"
    by (simp add: req0_def st0_findById)
  have h3: "uploads_stored ?r (disk st0)"
    by (simp add: req0_def uploads_stored_def)
  have h4: "\<not> (user_role ?r = ADMIN \<or> user_id ?r = createdBy task1)"
    by (simp add: req0_def task1_def ADMIN_def)
  have h5: "assignedTo task1 = bob"
    by (simp add: task1_def)
  from update_delete_access [OF h1 h2 h3, of hex24 True accept 50 True] h1 h2 h3 h4 h5 show ?thesis
    by blast
qed

section \<open>The attachment cap\<close>

text \<open>
  C3. A task returned by a successful \<open>createTask\<close> or a successful \<open>updateTask\<close> has at most
  three attached documents, whatever documents are retained and whatever files are
  uploaded; and if every stored task respects the cap before either handler runs, every
  stored task respects it afterwards.
\<close>

theorem attachment_cap:
  assumes "cap_inv s"
  shows "cap_inv (snd (createTask oid populates saves now req s))
       \<and> cap_inv (snd (updateTask oid populates saves now req s))
       \<and> (\<forall>t. fst (createTask oid populates saves now req s) = Created t
              \<longrightarrow> length (attachedDocuments t) \<le> 3)
       \<and> (\<forall>t. fst (updateTask oid populates saves now req s) = Ok_task t
              \<longrightarrow> length (attachedDocuments t) \<le> 3)"
proof -
  have c: "length (attachedDocuments t) \<le> 3"
    if "fst (createTask oid populates saves now req s) = Created t" for t
    using createTask_Created [OF that]
    by (simp add: new_task_def length_mk_docs MAX_DOCUMENTS_PER_TASK_def)
  have u: "length (attachedDocuments t) \<le> 3"
    if "fst (updateTask oid populates saves now req s) = Ok_task t" for t
    using updateTask_Ok [OF that]
    by (auto simp: updated_task_def length_mk_docs MAX_DOCUMENTS_PER_TASK_def)
  from createTask_cap [OF assms] updateTask_cap [OF assms] c u show ?thesis
    by blast
qed

text \<open>
  Alice creates a task with two files, and updates \<open>task1\<close> with one new file and no
  retained document; both succeed within the cap.
\<close>

theorem attachment_cap_witness:
  "cap_inv st0
   \<and> (\<exists>t. fst (createTask hex24 True accept 50
                 (req0\<lparr>files := [new1, new2], b_assignedTo := Some bob\<rparr>) st0) = Created t
          \<and> length (attachedDocuments t) \<le> 3)
   \<and> (\<exists>t. fst (updateTask hex24 True accept 50 (req0\<lparr>files := [new1]\<rparr>) st0) = Ok_task t
          \<and> length (attachedDocuments t) \<le> 3)"
proof -
  let ?c = "req0\<lparr>files := [new1, new2], b_assignedTo := Some bob\<rparr>"
  let ?u = "req0\<lparr>files := [new1]\<rparr>"
  have h: "cap_inv st0"
    by (simp add: cap_inv_def st0_def task1_def MAX_DOCUMENTS_PER_TASK_def)
  have c: "fst (createTask hex24 True accept 50 ?c st0) = Created (new_task 50 ?c st0)"
    by (simp add: createTask_def User_findById_def req0_def st0_fields accept_def
        MAX_DOCUMENTS_PER_TASK_def)
  have u: "fst (updateTask hex24 True accept 50 ?u st0) = Ok_task (updated_task 50 ?u st0 task1)"
    by (simp add: updateTask_def st0_findById req0_def task1_def accept_def ADMIN_def
        docsToRetain_def MAX_DOCUMENTS_PER_TASK_def)
  from attachment_cap [OF h, of hex24 True accept 50 ?c] c
  have "length (attachedDocuments (new_task 50 ?c st0)) \<le> 3" by blast
  moreover from attachment_cap [OF h, of hex24 True accept 50 ?u] u
  have "length (attachedDocuments (updated_task 50 ?u st0 task1)) \<le> 3" by blast
  ultimately show ?thesis using h c u by blast
qed

section \<open>Updating without a retain set\<close>

text \<open>
  C5. Take a validated update of an existing task by an admin or its creator, whose
  assignee (if sent) is found, that sends no \<open>existingAttachedDocuments\<close> and at most three
  files, and that the store accepts. Whatever the handler then answers, the stored task's
  attachments are exactly the newly uploaded files, one entry per file in order, each with
  the file's original name, path and mimetype and a fresh id, so there are as many as
  there are new uploads (none when nothing is uploaded); and no stored file of a
  previously attached document is left on disk. When the populate chain returns, the
  handler answers with the stored record and nothing else has left the disk.
\<close>

theorem retain_absent_removes_all:
  assumes "errors_empty req"
    and "findById (param_id req) s = Some t"
    and "user_role req = ADMIN \<or> createdBy t = user_id req"
    and "truthy (b_assignedTo req) \<longrightarrow> User_findById oid (b_assignedTo req) s = Found_user"
    and "b_existing req = None"
    and "length (files req) \<le> MAX_DOCUMENTS_PER_TASK"
    and "saves (updated_task now req s t)"
  shows "\<exists>t'. findById (param_id req) (snd (updateTask oid populates saves now req s)) = Some t'
       \<and> map (\<lambda>d. (filename d, path d, mimetype d)) (attachedDocuments t')
            = map (\<lambda>f. (originalname f, file_path f, file_mimetype f)) (files req)
       \<and> map doc_id (attachedDocuments t') = [next_oid s ..< next_oid s + length (files req)]
       \<and> length (attachedDocuments t') = length (files req)
       \<and> (\<forall>d \<in> set (attachedDocuments t).
              path d \<notin> disk (snd (updateTask oid populates saves now req s)))
       \<and> (populates \<longrightarrow>
              fst (updateTask oid populates saves now req s) = Ok_task t'
              \<and> disk (snd (updateTask oid populates saves now req s))
                   = disk s - path ` set (attachedDocuments t))"
proof -
  let ?t' = "updated_task now req s t"
  let ?s2 = "s\<lparr>disk := removeStored (attachedDocuments t) (disk s),
               tasks := replace_task ?t' (tasks s),
               next_oid := next_oid s + length (files req)\<rparr>"
  have run: "updateTask oid populates saves now req s
               = (if populates then (Ok_task ?t', ?s2) else discard_uploads req ServerError ?s2)"
    using assms
    by (auto simp: updateTask_def Let_def documentsToRemove_def docsToRetain_def)
  have docs: "attachedDocuments ?t' = mk_docs (next_oid s) (files req)"
    by (simp add: updated_task_def docsToRetain_def assms(5))
  have tk: "tasks (snd (updateTask oid populates saves now req s)) = replace_task ?t' (tasks s)"
    by (simp add: run discard_uploads_tasks)
  have "task_id ?t' = param_id req"
    using findById_mem [OF assms(2)] by simp
  with assms(2) have fnd:
    "findById (param_id req) (snd (updateTask oid populates saves now req s)) = Some ?t'"
    by (simp add: tk findById_def find_replace_task)
  have sub: "disk (snd (updateTask oid populates saves now req s))
               \<subseteq> disk s - path ` set (attachedDocuments t)"
    using discard_uploads_disk [of req ServerError ?s2]
    by (auto simp: run removeStored_eq)
  have gone: "\<forall>d \<in> set (attachedDocuments t).
                path d \<notin> disk (snd (updateTask oid populates saves now req s))"
    using sub by auto
  have ok: "fst (updateTask oid populates saves now req s) = Ok_task ?t'
              \<and> disk (snd (updateTask oid populates saves now req s))
                   = disk s - path ` set (attachedDocuments t)" if populates
    using that run by (simp add: removeStored_eq)
  from fnd docs gone ok show ?thesis
    by (auto simp: mk_docs_fields mk_docs_ids length_mk_docs)
qed

text \<open>
  \<open>task1\<close> has two attachments; alice's update sends no retain set and one file. The
  stored task lists that one file under its original name, and the two old files are
  deleted.
\<close>

theorem retain_absent_removes_all_witness:
  "errors_empty (req0\<lparr>files := [new1]\<rparr>)
   \<and> findById (param_id (req0\<lparr>files := [new1]\<rparr>)) st0 = Some task1
   \<and> b_existing (req0\<lparr>files := [new1]\<rparr>) = None
   \<and> length (attachedDocuments task1) = 2
   \<and> (\<exists>t'. findById 7 (snd (updateTask hex24 True accept 50 (req0\<lparr>files := [new1]\<rparr>) st0))
               = Some t'
          \<and> fst (updateTask hex24 True accept 50 (req0\<lparr>files := [new1]\<rparr>) st0) = Ok_task t'
          \<and> map (\<lambda>d. (filename d, path d, mimetype d)) (attachedDocuments t')
               = [(''a.pdf'', ''/app/uploads/n1.pdf'', ''application/pdf'')]
          \<and> map doc_id (attachedDocuments t') = [10])
   \<and> disk (snd (updateTask hex24 True accept 50 (req0\<lparr>files := [new1]\<rparr>) st0))
       = {''/app/uploads/n1.pdf'', ''/app/uploads/n2.pdf'', ''/app/uploads/n3.pdf''}"
proof -
  let ?r = "req0\<lparr>files := [new1]\<rparr>"
  have h1: "errors_empty ?r"
    by (simp add: req0_def)
  have h2: "findById (param_id ?r) st0 = Some task1"
    by (simp add: req0_def st0_findById)
  have h3: "user_role ?r = ADMIN \<or> createdBy task1 = user_id ?r"
    by (simp add: req0_def task1_def)
  have h4: "truthy (b_assignedTo ?r) \<longrightarrow> User_findById hex24 (b_assignedTo ?r) st0 = Found_user"
    by (simp add: req0_def)
  have h5: "b_existing ?r = None"
    by (simp add: req0_def)
  have h6: "length (files ?r) \<le> MAX_DOCUMENTS_PER_TASK"
    by (simp add: req0_def MAX_DOCUMENTS_PER_TASK_def)
  have h7: "accept (updated_task 50 ?r st0 task1)"
    by (simp add: accept_def)
  have d: "disk st0 - path ` set (attachedDocuments task1)
             = {''/app/uploads/n1.pdf'', ''/app/uploads/n2.pdf'', ''/app/uploads/n3.pdf''}"
    by (auto simp add: st0_def task1_def doc1_def doc2_def)
  have f: "map (\<lambda>f. (originalname f, file_path f, file_mimetype f)) (files ?r)
             = [(''a.pdf'', ''/app/uploads/n1.pdf'', ''application/pdf'')]"
    by (simp add: req0_def new1_def)
  have n: "[next_oid st0 ..< next_oid st0 + length (files ?r)] = [10]"
    by (simp add: req0_def st0_fields)
  have l: "length (attachedDocuments task1) = 2"
    by (simp add: task1_def)
  have p: "param_id ?r = 7"
    by (simp add: req0_def)
  from retain_absent_removes_all [where oid = hex24 and saves = accept and now = 50
      and populates = True and req = ?r and s = st0 and t = task1, OF h1 h2 h3 h4 h5 h6 h7]
  show ?thesis
    unfolding d f n p using h1 h2 h5 l p by auto
qed

section \<open>Too many documents on update\<close>




section \<open>Assignee not found\<close>

text \<open>
  When the controller handlers answer \<open>AssignedUserNotFound\<close>, for a validated request
  whose uploads are on disk: \<open>createTask\<close> with at most three files does so exactly when the
  lookup of \<open>assignedTo\<close> finds nobody, and \<open>updateTask\<close> on an existing task, by an admin
  or its creator, exactly when \<open>assignedTo\<close> is truthy and the lookup finds nobody. In each
  case every uploaded file is deleted and nothing else in the state changes.
\<close>

lemma assigned_user_not_found_cases:
  assumes "errors_empty req"
    and "uploads_stored req (disk s)"
  shows "(length (files req) \<le> MAX_DOCUMENTS_PER_TASK \<longrightarrow>
            ((fst (createTask oid populates saves now req s) = AssignedUserNotFound)
               = (User_findById oid (b_assignedTo req) s = No_user))
          \<and> (User_findById oid (b_assignedTo req) s = No_user \<longrightarrow>
               snd (createTask oid populates saves now req s)
                 = s\<lparr>disk := disk s - set (map file_path (files req))\<rparr>))
       \<and> (findById (param_id req) s = Some t
            \<and> (user_role req = ADMIN \<or> createdBy t = user_id req) \<longrightarrow>
            ((fst (updateTask oid populates saves now req s) = AssignedUserNotFound)
               = (truthy (b_assignedTo req) \<and> User_findById oid (b_assignedTo req) s = No_user))
          \<and> (truthy (b_assignedTo req) \<and> User_findById oid (b_assignedTo req) s = No_user \<longrightarrow>
               snd (updateTask oid populates saves now req s)
                 = s\<lparr>disk := disk s - set (map file_path (files req))\<rparr>))"
proof -
  have cr: "((fst (createTask oid populates saves now req s) = AssignedUserNotFound)
               = (User_findById oid (b_assignedTo req) s = No_user))
          \<and> (User_findById oid (b_assignedTo req) s = No_user \<longrightarrow>
               snd (createTask oid populates saves now req s)
                 = s\<lparr>disk := disk s - set (map file_path (files req))\<rparr>)"
    if "length (files req) \<le> MAX_DOCUMENTS_PER_TASK"
    using assms that
    by (cases "User_findById oid (b_assignedTo req) s")
       (auto simp: createTask_def Let_def discard_uploads_stored discard_uploads_neq)
  have up: "((fst (updateTask oid populates saves now req s) = AssignedUserNotFound)
               = (truthy (b_assignedTo req) \<and> User_findById oid (b_assignedTo req) s = No_user))
          \<and> (truthy (b_assignedTo req) \<and> User_findById oid (b_assignedTo req) s = No_user \<longrightarrow>
               snd (updateTask oid populates saves now req s)
                 = s\<lparr>disk := disk s - set (map file_path (files req))\<rparr>)"
    if "findById (param_id req) s = Some t" "user_role req = ADMIN \<or> createdBy t = user_id req"
  proof (cases "truthy (b_assignedTo req) \<and> User_findById oid (b_assignedTo req) s = No_user")
    case True
    then show ?thesis
      using assms that by (auto simp: updateTask_def discard_uploads_stored)
  next
    case False
    then have "fst (updateTask oid populates saves now req s) \<noteq> AssignedUserNotFound"
      using assms(1) that
      by (auto simp: updateTask_def Let_def discard_uploads_neq split: option.splits)
    with False show ?thesis by blast
  qed
  from cr up show ?thesis by blast
qed

text \<open>
  An \<open>assignedTo\<close> that is no ObjectId text makes the lookup throw: \<open>createTask\<close> answers
  500 for the empty text, and \<open>updateTask\<close> answers 404 for the text \<open>nobody\<close>.
\<close>

lemma assignee_cast_failure:
  "fst (createTask hex24 True accept 50 (req0\<lparr>b_assignedTo := Some []\<rparr>) st0) = ServerError
   \<and> fst (updateTask hex24 True accept 50 (req0\<lparr>b_assignedTo := Some ''nobody''\<rparr>) st0)
       = TaskNotFound"
  by (simp add: createTask_def updateTask_def User_findById_def st0_findById req0_def
      task1_def ADMIN_def MAX_DOCUMENTS_PER_TASK_def discard_uploads_def)

text \<open>
  C7. The claim is that \<open>updateTask\<close> answers \<open>AssignedUserNotFound\<close> exactly when
  \<open>assignedTo\<close> is sent, differs from the task's current assignee and is no existing user.
  Bob is the assignee of \<open>task1\<close> and his account has been deleted. Alice's update sends
  \<open>assignedTo = bob\<close> again with nothing else changed: the controller refuses it with
  \<open>AssignedUserNotFound\<close>, whereas the service's \<open>updateTask\<close>, which compares with the current
  assignee first, lets the same update through.
\<close>

theorem update_rechecks_unchanged_assignee:
  "findById 7 (st0\<lparr>users := {alice}\<rparr>) = Some task1
   \<and> assignedTo task1 = bob
   \<and> fst (updateTask hex24 True accept 50 (req0\<lparr>b_assignedTo := Some bob\<rparr>)
            (st0\<lparr>users := {alice}\<rparr>))
       = AssignedUserNotFound
   \<and> fst (svc_updateTask hex24 True accept 50 7 [''assignedTo'' \<mapsto> Text bob] []
            [Some 8, Some 9] alice ''user'' (st0\<lparr>users := {alice}\<rparr>))
       = Ok_task (task1\<lparr>updatedAt := 50\<rparr>)"
proof -
  let ?s = "st0\<lparr>users := {alice}\<rparr>"
  have f: "findById 7 ?s = Some task1"
    using st0_findById by (simp add: findById_def)
  have a: "assignedTo task1 = bob"
    by (simp add: task1_def)
  have l: "User_findById hex24 (Some bob) ?s = No_user"
    by (simp add: User_findById_def)
  have c: "fst (updateTask hex24 True accept 50 (req0\<lparr>b_assignedTo := Some bob\<rparr>) ?s)
             = AssignedUserNotFound"
    using f l by (simp add: updateTask_def req0_def task1_def ADMIN_def discard_uploads_def)
  have v: "fst (svc_updateTask hex24 True accept 50 7 [''assignedTo'' \<mapsto> Text bob] []
                  [Some 8, Some 9] alice ''user'' ?s)
             = Ok_task (task1\<lparr>updatedAt := 50\<rparr>)"
    using f
    by (simp add: svc_updateTask_def svc_updated_task_def apply_updates_def text_key_def
        time_key_def svc_retained_def ADMIN_def accept_def task1_def doc1_def doc2_def
        MAX_DOCUMENTS_PER_TASK_def)
  from f a c v show ?thesis
    by simp
qed

section \<open>Falsy fields on update\<close>

text \<open>
  C10. Whatever \<open>updateTask\<close> answers for a request on an existing task, the collection
  still holds the task afterwards, and each of title, description, status, priority, due
  date and assignee whose field in the request is absent or present with a falsy value
  (the empty text) has the value it had before; hence a text field that was not empty is
  not empty afterwards.
\<close>

theorem falsy_field_keeps_value:
  assumes "findById (param_id req) s = Some t"
  shows "\<exists>t'. findById (param_id req) (snd (updateTask oid populates saves now req s)) = Some t'
       \<and> (\<not> truthy (b_title req) \<longrightarrow> title t' = title t)
       \<and> (\<not> truthy (b_description req) \<longrightarrow> description t' = description t)
       \<and> (\<not> truthy (b_status req) \<longrightarrow> status t' = status t)
       \<and> (\<not> truthy (b_priority req) \<longrightarrow> priority t' = priority t)
       \<and> ((\<forall>x. b_dueDate req \<noteq> Date x) \<longrightarrow> dueDate t' = dueDate t)
       \<and> (\<not> truthy (b_assignedTo req) \<longrightarrow> assignedTo t' = assignedTo t)
       \<and> (title t \<noteq> [] \<longrightarrow> title t' \<noteq> [])
       \<and> (description t \<noteq> [] \<longrightarrow> description t' \<noteq> [])
       \<and> (status t \<noteq> [] \<longrightarrow> status t' \<noteq> [])
       \<and> (priority t \<noteq> [] \<longrightarrow> priority t' \<noteq> [])
       \<and> (assignedTo t \<noteq> [] \<longrightarrow> assignedTo t' \<noteq> [])"
proof -
  from updateTask_tasks_cases [of oid populates saves now req s] assms
  consider "tasks (snd (updateTask oid populates saves now req s)) = tasks s"
    | "tasks (snd (updateTask oid populates saves now req s))
         = replace_task (updated_task now req s t) (tasks s)"
    by auto
  then show ?thesis
  proof cases
    case 1
    with assms have "findById (param_id req) (snd (updateTask oid populates saves now req s))
                       = Some t"
      by (simp add: findById_def)
    then show ?thesis
      by blast
  next
    case 2
    let ?t' = "updated_task now req s t"
    have d: "dueDate ?t' = dueDate t" if "\<forall>x. b_dueDate req \<noteq> Date x"
      using that by (cases "b_dueDate req") (simp_all add: updated_task_def)
    have "task_id ?t' = param_id req"
      using findById_mem [OF assms] by simp
    with assms have fnd:
      "findById (param_id req) (snd (updateTask oid populates saves now req s)) = Some ?t'"
      by (simp add: 2 findById_def find_replace_task)
    have "(\<not> truthy (b_title req) \<longrightarrow> title ?t' = title t)
        \<and> (\<not> truthy (b_description req) \<longrightarrow> description ?t' = description t)
        \<and> (\<not> truthy (b_status req) \<longrightarrow> status ?t' = status t)
        \<and> (\<not> truthy (b_priority req) \<longrightarrow> priority ?t' = priority t)
        \<and> ((\<forall>x. b_dueDate req \<noteq> Date x) \<longrightarrow> dueDate ?t' = dueDate t)
        \<and> (\<not> truthy (b_assignedTo req) \<longrightarrow> assignedTo ?t' = assignedTo t)
        \<and> (title t \<noteq> [] \<longrightarrow> title ?t' \<noteq> [])
        \<and> (description t \<noteq> [] \<longrightarrow> description ?t' \<noteq> [])
        \<and> (status t \<noteq> [] \<longrightarrow> status ?t' \<noteq> [])
        \<and> (priority t \<noteq> [] \<longrightarrow> priority ?t' \<noteq> [])
        \<and> (assignedTo t \<noteq> [] \<longrightarrow> assignedTo ?t' \<noteq> [])"
      using d by (simp add: updated_task_def or_else_falsy or_else_nonempty)
    with fnd show ?thesis
      by blast
  qed
qed

text \<open>Alice sends all six fields with empty text: \<open>task1\<close> keeps every value.\<close>

theorem falsy_field_keeps_value_witness:
  "findById 7 st0 = Some task1
   \<and> findById 7
        (snd (updateTask hex24 True accept 50
                (req0\<lparr>b_title := Some [], b_description := Some [], b_status := Some [],
                      b_priority := Some [], b_dueDate := Blank_date,
                      b_assignedTo := Some []\<rparr>) st0))
       = Some (task1\<lparr>attachedDocuments := [], updatedAt := 50\<rparr>)
   \<and> title (task1\<lparr>attachedDocuments := [], updatedAt := 50\<rparr>) = ''Budget''"
proof -
  let ?r = "req0\<lparr>b_title := Some [], b_description := Some [], b_status := Some [],
                b_priority := Some [], b_dueDate := Blank_date, b_assignedTo := Some []\<rparr>"
  let ?t = "task1\<lparr>attachedDocuments := [], updatedAt := 50\<rparr>"
  have h: "findById (param_id ?r) st0 = Some task1"
    by (simp add: req0_def st0_findById)
  have f: "\<not> truthy (b_title ?r)"
    by (simp add: req0_def)
  from falsy_field_keeps_value [OF h, of hex24 True accept 50] f
  obtain t' where t': "findById (param_id ?r) (snd (updateTask hex24 True accept 50 ?r st0)) = Some t'"
    and ti: "title t' = title task1"
    by blast
  have "findById (param_id ?r) (snd (updateTask hex24 True accept 50 ?r st0)) = Some ?t"
    by (simp add: updateTask_def st0_findById req0_def task1_def accept_def ADMIN_def
        docsToRetain_def MAX_DOCUMENTS_PER_TASK_def updated_task_def findById_def st0_fields)
  with t' ti h show ?thesis
    by (simp add: req0_def task1_def)
qed

section \<open>Deleting a task\<close>

text \<open>
  C8, amended. When \<open>deleteTask\<close> finds the task and the actor is an admin or its creator,
  the stored file of every attached document is deleted (a file already missing is
  skipped) before the record is: the files are gone whether or not the store then removes
  the record, and the handler answers success exactly when it does. After a successful
  delete in a collection with unique task ids, \<open>downloadDocument\<close> answers
  \<open>DocumentNotFound\<close> for every file name that passes the upload directory guard and that
  no other task's attachments carry; this covers each file name of the deleted task that
  it did not share with another task.
\<close>

theorem cascade_delete:
  assumes "findById (param_id req) s = Some t"
    and "user_role req = ADMIN \<or> createdBy t = user_id req"
  shows "disk (snd (deleteTask deleted req s)) = disk s - path ` set (attachedDocuments t)
       \<and> (\<forall>d \<in> set (attachedDocuments t). path d \<notin> disk (snd (deleteTask deleted req s)))
       \<and> (deleted \<longrightarrow>
            fst (deleteTask deleted req s) = Ok_deleted
            \<and> tasks (snd (deleteTask deleted req s)) = deleteOne (param_id req) (tasks s))
       \<and> (\<not> deleted \<longrightarrow>
            fst (deleteTask deleted req s) = ServerError
            \<and> tasks (snd (deleteTask deleted req s)) = tasks s)
       \<and> (deleted \<and> distinct (map task_id (tasks s))
            \<and> (\<forall>x \<in> set (tasks s). task_id x \<noteq> param_id req
                   \<longrightarrow> fname \<notin> set (map filename (attachedDocuments x)))
            \<and> prefix uploads (path_join (or_else env uploads) fname)
          \<longrightarrow> downloadDocument uploads env fname uid role (snd (deleteTask deleted req s))
                = DocumentNotFound)"
proof -
  have st: "snd (deleteTask deleted req s) =
              (if deleted
               then s\<lparr>disk := disk s - path ` set (attachedDocuments t),
                      tasks := deleteOne (param_id req) (tasks s)\<rparr>
               else s\<lparr>disk := disk s - path ` set (attachedDocuments t)\<rparr>)"
    using assms by (auto simp: deleteTask_def Let_def removeStored_eq)
  have rs: "fst (deleteTask deleted req s) = (if deleted then Ok_deleted else ServerError)"
    using assms by (auto simp: deleteTask_def Let_def)
  have dl: "downloadDocument uploads env fname uid role (snd (deleteTask deleted req s))
              = DocumentNotFound"
    if "deleted" and dist: "distinct (map task_id (tasks s))"
      and oth: "\<forall>x \<in> set (tasks s). task_id x \<noteq> param_id req
                   \<longrightarrow> fname \<notin> set (map filename (attachedDocuments x))"
      and grd: "prefix uploads (path_join (or_else env uploads) fname)"
  proof -
    have "fname \<notin> set (map filename (attachedDocuments x))"
      if "x \<in> set (deleteOne (param_id req) (tasks s))" for x
      using that deleteOne_distinct [OF dist that] deleteOne_set [of "param_id req" "tasks s"] oth
      by blast
    moreover have "tasks (snd (deleteTask deleted req s)) = deleteOne (param_id req) (tasks s)"
      using \<open>deleted\<close> st by simp
    ultimately have "findOne_by_filename fname (snd (deleteTask deleted req s)) = None"
      by (simp only: findOne_by_filename_None) simp
    with grd show ?thesis
      by (simp add: downloadDocument_def Let_def)
  qed
  from st rs dl show ?thesis
    by auto
qed

text \<open>
  Alice deletes \<open>task1\<close> from the collection of two tasks. Its attachment \<open>notes.pdf\<close> has a
  name of its own and is not found afterwards.
\<close>

theorem cascade_delete_witness:
  "findById (param_id req0) st2 = Some task1
   \<and> (user_role req0 = ADMIN \<or> createdBy task1 = user_id req0)
   \<and> ''notes.pdf'' \<in> set (map filename (attachedDocuments task1))
   \<and> fst (deleteTask True req0 st2) = Ok_deleted
   \<and> tasks (snd (deleteTask True req0 st2)) = [task2]
   \<and> disk (snd (deleteTask True req0 st2))
       = {''/app/uploads/n1.pdf'', ''/app/uploads/n2.pdf'', ''/app/uploads/n3.pdf''}
   \<and> downloadDocument ''/app/uploads'' None ''notes.pdf'' bob ''user''
        (snd (deleteTask True req0 st2)) = DocumentNotFound"
proof -
  have h1: "findById (param_id req0) st2 = Some task1"
    by (simp add: findById_def req0_def st2_def task1_def)
  have h2: "user_role req0 = ADMIN \<or> createdBy task1 = user_id req0"
    by (simp add: req0_def task1_def)
  have m: "''notes.pdf'' \<in> set (map filename (attachedDocuments task1))"
    by (simp add: task1_def doc1_def doc2_def)
  have d: "distinct (map task_id (tasks st2))"
    by (simp add: st2_def task1_def task2_def)
  have o: "\<forall>x \<in> set (tasks st2). task_id x \<noteq> param_id req0
             \<longrightarrow> ''notes.pdf'' \<notin> set (map filename (attachedDocuments x))"
    by (simp add: st2_def req0_def task1_def task2_def doc3_def)
  have g: "prefix ''/app/uploads'' (path_join (or_else None ''/app/uploads'') ''notes.pdf'')"
    by (simp add: path_join_def normalize_path_def)
  have ts: "deleteOne (param_id req0) (tasks st2) = [task2]"
    by (simp add: req0_def st2_def task1_def)
  have dk: "disk st2 - path ` set (attachedDocuments task1)
              = {''/app/uploads/n1.pdf'', ''/app/uploads/n2.pdf'', ''/app/uploads/n3.pdf''}"
    by (auto simp add: st2_def st0_def task1_def doc1_def doc2_def)
  from cascade_delete [OF h1 h2, where deleted = True and fname = "''notes.pdf''"
      and uploads = "''/app/uploads''" and env = None and uid = "bob" and role = "''user''"]
    d o g
  have "disk (snd (deleteTask True req0 st2)) = disk st2 - path ` set (attachedDocuments task1)"
    and "fst (deleteTask True req0 st2) = Ok_deleted"
    and "tasks (snd (deleteTask True req0 st2)) = deleteOne (param_id req0) (tasks st2)"
    and "downloadDocument ''/app/uploads'' None ''notes.pdf'' bob ''user''
           (snd (deleteTask True req0 st2)) = DocumentNotFound"
    by blast+
  with h1 h2 m ts dk show ?thesis
    by simp
qed

text \<open>
  The claim as first stated promises \<open>DocumentNotFound\<close> for every file name of the deleted
  task. \<open>report.pdf\<close> is also the name of an attachment of \<open>task2\<close>: after \<open>task1\<close> is deleted
  the lookup finds \<open>task2\<close>, and carol is answered that the file is missing on disk.
\<close>

theorem cascade_delete_shared_name_counterexample:
  "''report.pdf'' \<in> set (map filename (attachedDocuments task1))
   \<and> fst (deleteTask True req0 st2) = Ok_deleted
   \<and> downloadDocument ''/app/uploads'' None ''report.pdf'' carol ''user''
        (snd (deleteTask True req0 st2)) = FileMissingOnDisk"
  by (simp add: deleteTask_def findById_def req0_def st2_def st0_def task1_def task2_def
      doc1_def doc2_def doc3_def ADMIN_def downloadDocument_def findOne_by_filename_def
      path_join_def normalize_path_def)

section \<open>Download errors\<close>

text \<open>
  C9, amended. For every actor and every file name that passes the upload directory guard
  (the file name joined onto the upload directory starts with the uploads path),
  \<open>downloadDocument\<close> answers \<open>DocumentNotFound\<close> when no task has an attachment with that
  file name, whatever the disk holds; and so does the service's \<open>getDocumentPath\<close>.
\<close>

theorem download_not_found:
  assumes "\<forall>t \<in> set (tasks s). fname \<notin> set (map filename (attachedDocuments t))"
  shows "(prefix uploads (path_join (or_else env uploads) fname)
            \<longrightarrow> downloadDocument uploads env fname uid role s = DocumentNotFound)
       \<and> (prefix uploads (path_join uploads fname)
            \<longrightarrow> getDocumentPath uploads fname uid role s = DocumentNotFound)"
proof -
  from assms have none: "findOne_by_filename fname s = None"
    by (simp only: findOne_by_filename_None)
  have c: "downloadDocument uploads env fname uid role s = DocumentNotFound"
    if "prefix uploads (path_join (or_else env uploads) fname)"
    using that none by (simp add: downloadDocument_def Let_def)
  have v: "getDocumentPath uploads fname uid role s = DocumentNotFound"
    if "prefix uploads (path_join uploads fname)"
    using that none by (simp add: getDocumentPath_def Let_def)
  from c v show ?thesis by blast
qed

text \<open>
  A file \<open>/app/uploads/other.pdf\<close> is on disk but no task lists \<open>other.pdf\<close>: bob is answered
  that the document is not found, by the controller and by the service.
\<close>

theorem download_not_found_witness:
  "findOne_by_filename ''other.pdf''
       (st0\<lparr>disk := insert ''/app/uploads/other.pdf'' (disk st0)\<rparr>) = None
   \<and> prefix ''/app/uploads'' (path_join (or_else None ''/app/uploads'') ''other.pdf'')
   \<and> path_join ''/app/uploads'' ''other.pdf''
       \<in> disk (st0\<lparr>disk := insert ''/app/uploads/other.pdf'' (disk st0)\<rparr>)
   \<and> downloadDocument ''/app/uploads'' None ''other.pdf'' bob ''user''
        (st0\<lparr>disk := insert ''/app/uploads/other.pdf'' (disk st0)\<rparr>) = DocumentNotFound
   \<and> getDocumentPath ''/app/uploads'' ''other.pdf'' bob ''user''
        (st0\<lparr>disk := insert ''/app/uploads/other.pdf'' (disk st0)\<rparr>) = DocumentNotFound"
proof -
  let ?s = "st0\<lparr>disk := insert ''/app/uploads/other.pdf'' (disk st0)\<rparr>"
  have n: "\<forall>t \<in> set (tasks ?s). ''other.pdf'' \<notin> set (map filename (attachedDocuments t))"
    by (simp add: st0_def task1_def doc1_def doc2_def)
  have j: "path_join ''/app/uploads'' ''other.pdf'' = ''/app/uploads/other.pdf''"
    by (simp add: path_join_def normalize_path_def)
  have g1: "prefix ''/app/uploads'' (path_join (or_else None ''/app/uploads'') ''other.pdf'')"
    by (simp add: j)
  have g2: "prefix ''/app/uploads'' (path_join ''/app/uploads'' ''other.pdf'')"
    by (simp add: j)
  have d: "path_join ''/app/uploads'' ''other.pdf'' \<in> disk ?s"
    by (simp add: j)
  from download_not_found [OF n, where uploads = "''/app/uploads''" and env = None
      and uid = bob and role = "''user''"] g1 g2
  have "downloadDocument ''/app/uploads'' None ''other.pdf'' bob ''user'' ?s = DocumentNotFound"
    and "getDocumentPath ''/app/uploads'' ''other.pdf'' bob ''user'' ?s = DocumentNotFound"
    by blast+
  moreover have "findOne_by_filename ''other.pdf'' ?s = None"
    using n by (simp only: findOne_by_filename_None)
  ultimately show ?thesis
    using g1 d by blast
qed

text \<open>
  The claim as first stated covers every file name. The name \<open>..\<close> joins to the parent of
  the upload directory; no task lists it, and both the controller and the service answer
  that the path is invalid, not that the document is not found.
\<close>

theorem download_guard_counterexample:
  "findOne_by_filename ''..'' st0 = None
   \<and> downloadDocument ''/app/uploads'' None ''..'' alice ''user'' st0 = InvalidFilePath
   \<and> getDocumentPath ''/app/uploads'' ''..'' alice ''user'' st0 = InvalidFilePath"
  by (simp add: findOne_by_filename_def st0_def task1_def doc1_def doc2_def
      downloadDocument_def getDocumentPath_def path_join_def normalize_path_def)

text \<open>
  What the handler looks for on disk is the file name joined onto the upload directory,
  not the path stored with the attachment. \<open>doc1\<close> is listed as \<open>report.pdf\<close> and stored as
  \<open>/app/uploads/f1.pdf\<close>, which is on disk; bob, the assignee, asks for \<open>report.pdf\<close> and is
  answered that the file is missing.
\<close>

lemma download_looks_for_listed_name:
  "findOne_by_filename ''report.pdf'' st0 = Some task1
   \<and> doc1 \<in> set (attachedDocuments task1)
   \<and> filename doc1 = ''report.pdf''
   \<and> path doc1 \<in> disk st0
   \<and> assignedTo task1 = bob
   \<and> downloadDocument ''/app/uploads'' None ''report.pdf'' bob ''user'' st0 = FileMissingOnDisk"
  by (simp add: findOne_by_filename_def st0_def task1_def doc1_def doc2_def
      downloadDocument_def path_join_def normalize_path_def)

section \<open>Listing tasks\<close>

text \<open>
  C1. The claim is that a non-admin's list holds exactly the tasks that the actor created
  or is assigned to and that meet every filter the caller supplies. Evaluated on the
  collection of two tasks, with bob (a plain user, assignee of \<open>task1\<close>) searching for
  \<open>audit\<close>, the controller and the service both return \<open>task1\<close>, which does not contain the
  search text, and \<open>task2\<close>, which bob neither created nor is assigned to: the search
  clauses and the two ownership clauses end up in one \<open>$or\<close>.
\<close>

theorem list_search_leak:
  "getTasks icontains (params0\<lparr>q_search := Some ''audit''\<rparr>) bob ''user'' st2
     = Ok_tasks [task1, task2]
   \<and> svc_getTasks icontains (params0\<lparr>q_search := Some ''audit'', q_page := Some 1, q_limit := Some 10\<rparr>)
        bob ''user'' st2 = Ok_tasks [task1, task2]
   \<and> createdBy task2 \<noteq> bob \<and> assignedTo task2 \<noteq> bob
   \<and> \<not> icontains ''audit'' (title task1) \<and> \<not> icontains ''audit'' (description task1)"
  by (simp add: getTasks_def svc_getTasks_def find_tasks_def params0_def build_query_def
      empty_query_def ADMIN_def st2_def st0_def matches_def task1_def task2_def
      icontains_audit sort_tasks_def sort_field_def key_le_def paginate_def)

section \<open>The creator of a task\<close>

text \<open>
  C4. The claim is that \<open>createdBy\<close> is the actor on create and is never changed by an
  update. Evaluated on the service's \<open>updateTask\<close> with \<open>updateData = {createdBy: carol}\<close>,
  sent by the admin carol for alice's \<open>task1\<close> with both documents retained: the stored task
  has carol as its creator, whether the populate chain then returns or throws. (The
  controller's handlers do keep the creator; see \<open>createTask_forces_creator\<close> and
  \<open>updateTask_keeps_creator\<close>.)
\<close>

theorem service_update_overwrites_creator:
  "createdBy task1 = alice
   \<and> svc_updateTask hex24 True accept 50 7 [''createdBy'' \<mapsto> Text carol] [] [Some 8, Some 9]
        carol ''admin'' st0
       = (Ok_task (task1\<lparr>createdBy := carol, updatedAt := 50\<rparr>),
          st0\<lparr>tasks := [task1\<lparr>createdBy := carol, updatedAt := 50\<rparr>]\<rparr>)
   \<and> svc_updateTask hex24 False accept 50 7 [''createdBy'' \<mapsto> Text carol] [] [Some 8, Some 9]
        carol ''admin'' st0
       = (ServerError, st0\<lparr>tasks := [task1\<lparr>createdBy := carol, updatedAt := 50\<rparr>]\<rparr>)"
  by (simp add: svc_updateTask_def svc_updated_task_def apply_updates_def text_key_def
      time_key_def svc_retained_def st0_findById ADMIN_def accept_def task1_def doc1_def
      doc2_def MAX_DOCUMENTS_PER_TASK_def st0_fields)

end
